theory Spec2Isabelle
  imports Main
begin

section \<open>The Rocket.Chat channel plugin of OpenClaw\<close>

text \<open>
  A shallow embedding of the channel module of the plugin: the allow-list helpers, the
  markdown detection, the three senders, the inbound message handler with its deliver
  callback, and the HTTP handler registered for the inbound webhook.

  JavaScript strings are modelled as \<^typ>\<open>string\<close>: a list of 8-bit characters, a
  character outside ASCII being the bytes of its UTF-8 encoding. Case conversion and
  white space are those of ASCII; bytes above 127 have no case and are no white space.
\<close>

subsection \<open>Strings\<close>

text \<open>\<^verbatim>\<open>String.prototype.trim\<close>: the ASCII white space and line terminators (tab, line
  feed, vertical tab, form feed, carriage return, space).\<close>

definition isWhiteSpace :: "char \<Rightarrow> bool" where
  "isWhiteSpace c = (c \<in> set [CHR 0x09, CHR 0x0A, CHR 0x0B, CHR 0x0C, CHR 0x0D, CHR 0x20])"

definition trim :: "string \<Rightarrow> string" where
  "trim s = rev (dropWhile isWhiteSpace (rev (dropWhile isWhiteSpace s)))"

definition lowerTable :: "(char \<times> char) list" where
  "lowerTable = zip ''ABCDEFGHIJKLMNOPQRSTUVWXYZ'' ''abcdefghijklmnopqrstuvwxyz''"

definition toLowerChar :: "char \<Rightarrow> char" where
  "toLowerChar c = (case map_of lowerTable c of Some d \<Rightarrow> d | None \<Rightarrow> c)"

text \<open>\<^verbatim>\<open>String.prototype.toLowerCase\<close>.\<close>

definition toLowerCase :: "string \<Rightarrow> string" where
  "toLowerCase s = map toLowerChar s"

text \<open>\<^verbatim>\<open>s.startsWith(p)\<close>.\<close>

definition startsWith :: "string \<Rightarrow> string \<Rightarrow> bool" where
  "startsWith s p = (take (length p) s = p)"

text \<open>\<^verbatim>\<open>s.includes(t)\<close>: \<open>t\<close> occurs in \<open>s\<close> at some position.\<close>

fun includesStr :: "string \<Rightarrow> string \<Rightarrow> bool" where
  "includesStr [] t = (t = [])"
| "includesStr (c # s) t = (startsWith (c # s) t \<or> includesStr s t)"

text \<open>The truthiness of an optional string: \<^verbatim>\<open>undefined\<close>, \<^verbatim>\<open>null\<close> and the empty
  string are falsy.\<close>

definition truthy :: "string option \<Rightarrow> bool" where
  "truthy v = (case v of None \<Rightarrow> False | Some s \<Rightarrow> s \<noteq> [])"

subsection \<open>Authorization helpers\<close>

record NormalizedAllowFrom =
  entries :: "string list"
  entriesLower :: "string list"
  hasWildcard :: bool
  hasEntries :: bool

text \<open>The regular expression \<^verbatim>\<open>/^(rocketchat|rc|rocket):/i\<close> at the start of \<open>s\<close>: the
  alternatives are tried in the order written, each letter in either case, and the length
  of the match is returned.\<close>

definition matchCI :: "string \<Rightarrow> string \<Rightarrow> bool" where
  "matchCI s p = (length p \<le> length s \<and> toLowerCase (take (length p) s) = p)"

definition providerPrefix :: "string \<Rightarrow> nat option" where
  "providerPrefix s =
     (if matchCI s ''rocketchat:'' then Some (length ''rocketchat:'')
      else if matchCI s ''rc:'' then Some (length ''rc:'')
      else if matchCI s ''rocket:'' then Some (length ''rocket:'')
      else None)"

text \<open>\<^verbatim>\<open>value.replace(/^(rocketchat|rc|rocket):/i, '')\<close>: the first match only, as the
  expression has no \<^verbatim>\<open>g\<close> flag.\<close>

definition stripProviderPrefix :: "string \<Rightarrow> string" where
  "stripProviderPrefix v = (case providerPrefix v of None \<Rightarrow> v | Some n \<Rightarrow> drop n v)"

definition normalizeAllowFrom :: "string list option \<Rightarrow> NormalizedAllowFrom" where
  "normalizeAllowFrom list =
     (let entries0 = filter (\<lambda>v. v \<noteq> []) (map trim (case list of None \<Rightarrow> [] | Some l \<Rightarrow> l));
          hasWildcard0 = (''*'' \<in> set entries0);
          normalized = map stripProviderPrefix (filter (\<lambda>v. v \<noteq> ''*'') entries0);
          normalizedLower = map toLowerCase normalized
      in \<lparr> entries = normalized,
           entriesLower = normalizedLower,
           hasWildcard = hasWildcard0,
           hasEntries = (length entries0 > 0) \<rparr>)"

definition isSenderAllowed :: "NormalizedAllowFrom \<Rightarrow> string option \<Rightarrow> bool" where
  "isSenderAllowed allow senderId =
     (if \<not> hasEntries allow then True
      else if hasWildcard allow then True
      else if truthy senderId \<and> toLowerCase (the senderId) \<in> set (entriesLower allow) then True
      else False)"

subsection \<open>Markdown detection\<close>

record SendMessageOptions =
  useMarkdown :: "bool option"
  title :: "string option"
  atUserId :: "string option"
  log :: bool
  sessionWebhook :: "string option"
  accountId :: "string option"

text \<open>The two character classes of \<^verbatim>\<open>/^[#*>-]|[*_`#[\]]/\<close>.\<close>

definition leaderClass :: "char list" where
  "leaderClass = [CHR ''#'', CHR ''*'', CHR ''>'', CHR ''-'']"

definition inlineClass :: "char list" where
  "inlineClass = [CHR ''*'', CHR ''_'', CHR 0x60, CHR ''#'', CHR ''['', CHR '']'']"

text \<open>\<^verbatim>\<open>/^[#*>-]|[*_`#[\]]/.test(text)\<close>: the matcher tries each start position from the
  left; at a position the first alternative needs the position to be the start of the
  input, the second does not. \<open>atStart\<close> says whether the position is the start.\<close>

fun regexTest :: "bool \<Rightarrow> string \<Rightarrow> bool" where
  "regexTest atStart [] = False"
| "regexTest atStart (c # cs) =
     (if atStart \<and> c \<in> set leaderClass then True
      else if c \<in> set inlineClass then True
      else regexTest False cs)"

definition detectMarkdown :: "string \<Rightarrow> SendMessageOptions \<Rightarrow> bool" where
  "detectMarkdown text0 options =
     (let hasMarkdown = (regexTest True text0 \<or> includesStr text0 [CHR 0x0A])
      in useMarkdown options \<noteq> Some False \<and> (useMarkdown options = Some True \<or> hasMarkdown))"

subsection \<open>Configuration and messages\<close>

datatype DmPolicy = PolicyOpen | PolicyPairing | PolicyAllowlist

text \<open>The fields of \<^verbatim>\<open>RocketChatConfig\<close> that the channel module reads. An absent optional
  field is \<open>None\<close>.\<close>

record RocketChatConfig =
  enabled :: "bool option"
  webhookUrl :: string
  authToken :: string
  dmPolicy :: "DmPolicy option"
  allowFrom :: "string list option"
  showThinking :: "bool option"

text \<open>\<^verbatim>\<open>RocketChatInboundMessage\<close>. The field \<^verbatim>\<open>text\<close> is \<open>msg_text\<close> here, and
  \<^verbatim>\<open>channel_name\<close> is \<^verbatim>\<open>string | null\<close>.\<close>

record RocketChatInboundMessage =
  token :: string
  bot :: bool
  channel_id :: string
  channel_name :: "string option"
  message_id :: string
  timestamp :: string
  user_id :: string
  user_name :: string
  msg_text :: string
  siteUrl :: string

text \<open>\<^verbatim>\<open>MessageContent\<close>, without the media fields that are never set.\<close>

record MessageContent =
  content_text :: string
  messageType :: string

text \<open>The result of \<^verbatim>\<open>sendMessage\<close>: \<^verbatim>\<open>{ ok, error?, data? }\<close>.\<close>

record DeliveryResult =
  ok :: bool
  error :: "string option"
  result_data :: "string option"

subsection \<open>Effects\<close>

text \<open>
  Everything the module does to the outside is recorded, in order, as an event of the
  world: a line handed to the logger (level and arguments), an HTTP request made with
  axios, a call of the host runtime, the response written to an inbound HTTP request, and
  a task scheduled with \<^verbatim>\<open>setTimeout\<close>.
\<close>

datatype log_level = Debug | Info | Warn | Error

text \<open>The axios request: \<open>data\<close> is the \<^verbatim>\<open>text\<close> field of the JSON body, which has no
  other field.\<close>

record http_request =
  url :: string
  http_method :: string
  data :: string
  headers :: "(string \<times> string) list"

text \<open>The response to an inbound request: the status code, the headers in the order of
  the \<^verbatim>\<open>setHeader\<close> calls, and the body given to \<^verbatim>\<open>res.end\<close>.\<close>

record ServerResponse =
  statusCode :: nat
  res_headers :: "(string \<times> string) list"
  res_body :: string

text \<open>A value produced by \<^verbatim>\<open>JSON.parse\<close>. Of a number only whether it is zero is ever
  observed, so numbers are carried as integers.\<close>

datatype json =
    JNull
  | JBool bool
  | JNum int
  | JStr string
  | JArr "json list"
  | JObj "(string \<times> json) list"

datatype PeerKind = PeerDm | PeerGroup

record Route =
  agentId :: string
  sessionKey :: string
  mainSessionKey :: string

text \<open>The argument of \<^verbatim>\<open>formatInboundEnvelope\<close>.\<close>

record EnvelopeParams =
  env_channel :: string
  env_from :: string
  env_timestamp :: string
  env_body :: string
  env_chatType :: string
  env_sender_name :: string
  env_sender_id :: string
  env_previousTimestamp :: "string option"
  env_envelope :: string

text \<open>The inbound context handed to \<^verbatim>\<open>finalizeInboundContext\<close>.\<close>

record InboundContext =
  Body :: string
  RawBody :: string
  CommandBody :: string
  From :: string
  To :: string
  SessionKey :: string
  AccountId :: string
  ChatType :: string
  ConversationLabel :: string
  GroupSubject :: "string option"
  SenderName :: string
  SenderId :: string
  Provider :: string
  Surface :: string
  MessageSid :: string
  Timestamp :: string
  MediaPath :: "string option"
  MediaType :: "string option"
  MediaUrl :: "string option"
  CommandAuthorized :: bool
  OriginatingChannel :: string
  OriginatingTo :: string

text \<open>The argument of \<^verbatim>\<open>recordInboundSession\<close> (the error callback apart).\<close>

record RecordParams =
  rec_storePath :: string
  rec_sessionKey :: string
  rec_ctx :: InboundContext
  rec_lastRoute_sessionKey :: string
  rec_lastRoute_channel :: string
  rec_lastRoute_to :: string
  rec_lastRoute_accountId :: string

datatype host_call =
    ResolveAgentRoute string string PeerKind string
  | ResolveStorePath "string option" string
  | ResolveEnvelopeFormatOptions
  | ReadSessionUpdatedAt string string
  | FormatInboundEnvelope EnvelopeParams
  | FinalizeInboundContext InboundContext
  | RecordInboundSession RecordParams
  | DispatchReply InboundContext

datatype event =
    Log log_level "string list"
  | Post http_request
  | HostCall host_call
  | Respond ServerResponse
  | SetTimeout json string

text \<open>The world: the events so far, and whether the module's global \<^verbatim>\<open>currentLogger\<close>
  holds a logger.\<close>

record world =
  events :: "event list"
  currentLogger :: bool

text \<open>An asynchronous function is a function of the world that returns the new world
  with either the message of the error it threw (\<open>Inl\<close>) or its value (\<open>Inr\<close>).\<close>

type_synonym 'a io = "world \<Rightarrow> (string + 'a) \<times> world"

definition io_return :: "'a \<Rightarrow> 'a io" where
  "io_return x = (\<lambda>w. (Inr x, w))"

definition io_throw :: "string \<Rightarrow> 'a io" where
  "io_throw e = (\<lambda>w. (Inl e, w))"

definition io_bind :: "'a io \<Rightarrow> ('a \<Rightarrow> 'b io) \<Rightarrow> 'b io" where
  "io_bind m f = (\<lambda>w. case m w of (Inl e, w') \<Rightarrow> (Inl e, w') | (Inr x, w') \<Rightarrow> f x w')"

text \<open>\<^verbatim>\<open>try { m } catch (err) { h(err) }\<close>.\<close>

definition io_try :: "'a io \<Rightarrow> (string \<Rightarrow> 'a io) \<Rightarrow> 'a io" where
  "io_try m h = (\<lambda>w. case m w of (Inl e, w') \<Rightarrow> h e w' | (Inr x, w') \<Rightarrow> (Inr x, w'))"

definition emit :: "event \<Rightarrow> unit io" where
  "emit ev = (\<lambda>w. (Inr (), w\<lparr>events := events w @ [ev]\<rparr>))"

text \<open>\<^verbatim>\<open>log?.level?.(args)\<close>: nothing happens without a logger.\<close>

definition logWith :: "bool \<Rightarrow> log_level \<Rightarrow> string list \<Rightarrow> unit io" where
  "logWith present lvl args = (if present then emit (Log lvl args) else io_return ())"

text \<open>The events of \<open>w'\<close> that were not yet in \<open>w\<close>.\<close>

definition emitted :: "world \<Rightarrow> world \<Rightarrow> event list" where
  "emitted w w' = drop (length (events w)) (events w')"

text \<open>
  What the module takes from its environment: the provider's answer to an HTTP request
  (given the events so far, the message of the error axios throws or the response data),
  \<^verbatim>\<open>JSON.stringify\<close> on an outbound body and on an inbound message, \<^verbatim>\<open>JSON.parse\<close> (the
  message of its syntax error, or the value), the entries of
  \<^verbatim>\<open>new URLSearchParams(body)\<close>, and the message of the type error raised by reading a
  property of \<^verbatim>\<open>null\<close>.
\<close>

record Env =
  net :: "event list \<Rightarrow> http_request \<Rightarrow> string + string"
  stringifyOutbound :: "string \<Rightarrow> string"
  stringifyInbound :: "RocketChatInboundMessage \<Rightarrow> string"
  JSON_parse :: "string \<Rightarrow> string + json"
  URLSearchParams :: "string \<Rightarrow> (string \<times> string) list"
  nullPropertyError :: "string \<Rightarrow> string"

definition axios :: "Env \<Rightarrow> http_request \<Rightarrow> string io" where
  "axios env req = (\<lambda>w. (net env (events w) req, w\<lparr>events := events w @ [Post req]\<rparr>))"

subsection \<open>Sending\<close>

definition sendProactive ::
  "Env \<Rightarrow> RocketChatConfig \<Rightarrow> string \<Rightarrow> string \<Rightarrow> SendMessageOptions \<Rightarrow> string io" where
  "sendProactive env config target text0 options =
     (\<lambda>w0.
        (let logger = (log options \<or> currentLogger w0) in
         io_bind (logWith logger Debug
                    [''[RocketChat] Sending proactive message to target '' @ target]) (\<lambda>_.
         let payload = (if detectMarkdown text0 options then text0 else text0) in
         io_bind (logWith logger Debug
                    [''[RocketChat] Sending payload: '' @ stringifyOutbound env payload]) (\<lambda>_.
         axios env \<lparr> url = webhookUrl config, http_method = ''POST'', data = payload,
                     headers = [(''Content-Type'', ''application/json'')] \<rparr>))) w0)"

text \<open>The mention is appended once inside the markdown branch and once more after it.\<close>

definition sendBySession ::
  "Env \<Rightarrow> RocketChatConfig \<Rightarrow> string \<Rightarrow> string \<Rightarrow> SendMessageOptions \<Rightarrow> string io" where
  "sendBySession env config sessionWebhook0 text0 options =
     (let useMarkdown0 = detectMarkdown text0 options;
          body = (if useMarkdown0
                  then (if truthy (atUserId options)
                        then text0 @ '' @'' @ the (atUserId options) else text0)
                  else text0);
          body' = (if truthy (atUserId options)
                   then body @ '' @'' @ the (atUserId options) else body)
      in axios env \<lparr> url = webhookUrl config, http_method = ''POST'', data = body',
                      headers = [(''Content-Type'', ''application/json'')] \<rparr>)"

definition sendMessage ::
  "Env \<Rightarrow> RocketChatConfig \<Rightarrow> string \<Rightarrow> string \<Rightarrow> SendMessageOptions \<Rightarrow> DeliveryResult io" where
  "sendMessage env config conversationId text0 options =
     io_try
       (if truthy (sessionWebhook options)
        then io_bind (sendBySession env config (the (sessionWebhook options)) text0 options)
               (\<lambda>_. io_return \<lparr> ok = True, error = None, result_data = None \<rparr>)
        else io_bind (sendProactive env config conversationId text0 options)
               (\<lambda>result. io_return \<lparr> ok = True, error = None, result_data = Some result \<rparr>))
       (\<lambda>err.
          io_bind (logWith (log options) Error [''[RocketChat] Send message failed: '' @ err])
            (\<lambda>_. io_return \<lparr> ok = False, error = Some err, result_data = None \<rparr>))"

subsection \<open>The host runtime\<close>

text \<open>\<^verbatim>\<open>OpenClawConfig\<close>: the module reads \<^verbatim>\<open>cfg.session?.store\<close> and hands the rest to
  the host.\<close>

record OpenClawConfig =
  session_store :: "string option"

text \<open>A reply block handed to the deliver callback: \<^verbatim>\<open>payload.markdown\<close> and
  \<^verbatim>\<open>payload.text\<close>.\<close>

record ReplyPayload =
  markdown :: "string option"
  block_text :: "string option"

text \<open>How \<^verbatim>\<open>recordInboundSession\<close> ends: it resolves, it resolves after calling
  \<^verbatim>\<open>onRecordError\<close>, or it rejects.\<close>

datatype RecordOutcome = Recorded | RecordFailed string | RecordRejected string

text \<open>The functions of \<^verbatim>\<open>getRocketChatRuntime().channel\<close>: what each returns, and the
  reply blocks the buffered block dispatcher emits for a context.\<close>

record Runtime =
  resolveAgentRoute :: "OpenClawConfig \<Rightarrow> string \<Rightarrow> string \<Rightarrow> PeerKind \<Rightarrow> string \<Rightarrow> Route"
  resolveStorePath :: "string option \<Rightarrow> string \<Rightarrow> string"
  resolveEnvelopeFormatOptions :: "OpenClawConfig \<Rightarrow> string"
  readSessionUpdatedAt :: "string \<Rightarrow> string \<Rightarrow> string option"
  formatInboundEnvelope :: "EnvelopeParams \<Rightarrow> string"
  finalizeInboundContext :: "InboundContext \<Rightarrow> InboundContext"
  recordInboundSession :: "RecordParams \<Rightarrow> RecordOutcome"
  replyBlocks :: "InboundContext \<Rightarrow> ReplyPayload list"

text \<open>A call of the host: the call is recorded and the host's value returned.\<close>

definition callHost :: "host_call \<Rightarrow> 'a \<Rightarrow> 'a io" where
  "callHost c v = io_bind (emit (HostCall c)) (\<lambda>_. io_return v)"

subsection \<open>The inbound message handler\<close>

definition extractMessageContent :: "RocketChatInboundMessage \<Rightarrow> MessageContent" where
  "extractMessageContent data0 =
     \<lparr> content_text = (if trim (msg_text data0) \<noteq> [] then trim (msg_text data0) else []),
       messageType = ''text'' \<rparr>"

text \<open>\<^verbatim>\<open>maskSensitiveData\<close> on an inbound message: of its keys only \<^verbatim>\<open>token\<close> contains,
  or is contained in, one of the sensitive keys.\<close>

definition maskSensitiveData :: "RocketChatInboundMessage \<Rightarrow> RocketChatInboundMessage" where
  "maskSensitiveData data0 = data0\<lparr>token := ''[MASKED]''\<rparr>"

text \<open>The denial notice; it starts with the no-entry sign U+26D4.\<close>

definition accessDeniedText :: "string \<Rightarrow> string" where
  "accessDeniedText senderId =
     [CHR 0xE2, CHR 0x9B, CHR 0x94] @ '' Access restricted'' @ [CHR 0x0A, CHR 0x0A]
     @ ''Your user ID: '' @ [CHR 0x60] @ senderId @ [CHR 0x60] @ [CHR 0x0A, CHR 0x0A]
     @ ''Please contact administrator to add this ID to the allowlist.''"

text \<open>The thinking notice; it starts with the thinking face U+1F914.\<close>

definition thinkingText :: string where
  "thinkingText = [CHR 0xF0, CHR 0x9F, CHR 0xA4, CHR 0x94] @ '' Thinking, please wait...''"

text \<open>The options of the two \<^verbatim>\<open>sendMessage\<close> calls of the handler.\<close>

definition replyOptions :: "string \<Rightarrow> bool \<Rightarrow> string \<Rightarrow> string \<Rightarrow> SendMessageOptions" where
  "replyOptions sessionWebhook0 isDirect senderId accountId0 =
     \<lparr> useMarkdown = None, title = None,
       atUserId = (if \<not> isDirect then Some senderId else None),
       log = True,
       sessionWebhook = Some sessionWebhook0,
       accountId = Some accountId0 \<rparr>"

text \<open>The \<^verbatim>\<open>deliver\<close> callback given to the dispatcher.\<close>

definition deliver ::
  "Env \<Rightarrow> RocketChatConfig \<Rightarrow> string \<Rightarrow> string \<Rightarrow> bool \<Rightarrow> string \<Rightarrow> string \<Rightarrow> ReplyPayload
     \<Rightarrow> unit io" where
  "deliver env rocketchatConfig to0 sessionWebhook0 isDirect senderId accountId0 payload =
     io_try
       (let textToSend = (if truthy (markdown payload) then markdown payload
                          else block_text payload) in
        if \<not> truthy textToSend then io_return ()
        else io_bind (sendMessage env rocketchatConfig to0 (the textToSend)
                        (replyOptions sessionWebhook0 isDirect senderId accountId0))
               (\<lambda>_. io_return ()))
       (\<lambda>err. io_bind (logWith True Error [''[RocketChat] Reply failed: '' @ err])
                 (\<lambda>_. io_throw err))"

text \<open>The host's buffered block dispatcher, as far as the module sees it: it awaits the
  callback on each block in turn, and an error the callback raises ends the dispatch.\<close>

fun deliverBlocks :: "(ReplyPayload \<Rightarrow> unit io) \<Rightarrow> ReplyPayload list \<Rightarrow> unit io" where
  "deliverBlocks d [] = io_return ()"
| "deliverBlocks d (p # ps) = io_bind (d p) (\<lambda>_. deliverBlocks d ps)"

definition dispatchReplyWithBufferedBlockDispatcher ::
  "Runtime \<Rightarrow> InboundContext \<Rightarrow> (ReplyPayload \<Rightarrow> unit io) \<Rightarrow> unit io" where
  "dispatchReplyWithBufferedBlockDispatcher rt ctx d =
     io_bind (emit (HostCall (DispatchReply ctx))) (\<lambda>_. deliverBlocks d (replyBlocks rt ctx))"

text \<open>\<^verbatim>\<open>!data.channel_name || data.channel_name.startsWith('@')\<close>.\<close>

definition isDirectMessage :: "RocketChatInboundMessage \<Rightarrow> bool" where
  "isDirectMessage data0 =
     (\<not> truthy (channel_name data0) \<or> startsWith (the (channel_name data0)) ''@'')"

text \<open>The body of \<^verbatim>\<open>handleRocketChatMessage\<close> from the route resolution on, with the
  local variables it has at that point.\<close>

definition handleAuthorized ::
  "Env \<Rightarrow> Runtime \<Rightarrow> OpenClawConfig \<Rightarrow> string \<Rightarrow> RocketChatInboundMessage \<Rightarrow> string
     \<Rightarrow> RocketChatConfig \<Rightarrow> MessageContent \<Rightarrow> bool \<Rightarrow> string \<Rightarrow> string \<Rightarrow> string \<Rightarrow> string
     \<Rightarrow> bool \<Rightarrow> unit io" where
  "handleAuthorized env rt cfg accountId0 data0 sessionWebhook0 rocketchatConfig content
       isDirect senderId senderName channelId channelName commandAuthorized =
     (let mediaPath = None; mediaType = None;
          peerKind = (if isDirect then PeerDm else PeerGroup);
          peerId = (if isDirect then senderId else channelId) in
      io_bind (callHost (ResolveAgentRoute ''rocketchat'' accountId0 peerKind peerId)
                 (resolveAgentRoute rt cfg ''rocketchat'' accountId0 peerKind peerId)) (\<lambda>route.
      io_bind (callHost (ResolveStorePath (session_store cfg) (agentId route))
                 (resolveStorePath rt (session_store cfg) (agentId route))) (\<lambda>storePath.
      io_bind (callHost ResolveEnvelopeFormatOptions
                 (resolveEnvelopeFormatOptions rt cfg)) (\<lambda>envelopeOptions.
      io_bind (callHost (ReadSessionUpdatedAt storePath (sessionKey route))
                 (readSessionUpdatedAt rt storePath (sessionKey route))) (\<lambda>previousTimestamp.
      let fromLabel = (if isDirect then senderName @ '' ('' @ senderId @ '')''
                       else channelName @ '' - '' @ senderName);
          envelope = \<lparr> env_channel = ''RocketChat'',
                       env_from = fromLabel,
                       env_timestamp = timestamp data0,
                       env_body = content_text content,
                       env_chatType = (if isDirect then ''direct'' else ''group''),
                       env_sender_name = senderName,
                       env_sender_id = senderId,
                       env_previousTimestamp = previousTimestamp,
                       env_envelope = envelopeOptions \<rparr> in
      io_bind (callHost (FormatInboundEnvelope envelope)
                 (formatInboundEnvelope rt envelope)) (\<lambda>body.
      let to0 = (if isDirect then senderId else channelId);
          ctx0 = \<lparr> Body = body,
                   RawBody = content_text content,
                   CommandBody = content_text content,
                   From = to0,
                   To = to0,
                   SessionKey = sessionKey route,
                   AccountId = accountId0,
                   ChatType = (if isDirect then ''direct'' else ''group''),
                   ConversationLabel = fromLabel,
                   GroupSubject = (if isDirect then None else Some channelName),
                   SenderName = senderName,
                   SenderId = senderId,
                   Provider = ''rocketchat'',
                   Surface = ''rocketchat'',
                   MessageSid = message_id data0,
                   Timestamp = timestamp data0,
                   MediaPath = mediaPath,
                   MediaType = mediaType,
                   MediaUrl = mediaPath,
                   CommandAuthorized = commandAuthorized,
                   OriginatingChannel = ''rocketchat'',
                   OriginatingTo = to0 \<rparr> in
      io_bind (callHost (FinalizeInboundContext ctx0)
                 (finalizeInboundContext rt ctx0)) (\<lambda>ctx.
      let params = \<lparr> rec_storePath = storePath,
                     rec_sessionKey = (if SessionKey ctx \<noteq> [] then SessionKey ctx
                                       else sessionKey route),
                     rec_ctx = ctx,
                     rec_lastRoute_sessionKey = mainSessionKey route,
                     rec_lastRoute_channel = ''rocketchat'',
                     rec_lastRoute_to = to0,
                     rec_lastRoute_accountId = accountId0 \<rparr> in
      io_bind (emit (HostCall (RecordInboundSession params))) (\<lambda>_.
      io_bind (case recordInboundSession rt params of
                 Recorded \<Rightarrow> io_return ()
               | RecordFailed err \<Rightarrow>
                   logWith True Error [''[RocketChat] Failed to record inbound session: '' @ err]
               | RecordRejected err \<Rightarrow> io_throw err) (\<lambda>_.
      io_bind (logWith True Info
                 [''[RocketChat] Inbound: from='' @ senderName @ '' text=\"''
                  @ take 50 (content_text content) @ ''...\"'']) (\<lambda>_.
      io_bind (if showThinking rocketchatConfig \<noteq> Some False
               then io_try
                      (io_bind (sendMessage env rocketchatConfig to0 thinkingText
                                  (replyOptions sessionWebhook0 isDirect senderId accountId0))
                         (\<lambda>_. io_return ()))
                      (\<lambda>err. logWith True Debug
                                [''[RocketChat] Thinking message failed: '' @ err])
               else io_return ()) (\<lambda>_.
      dispatchReplyWithBufferedBlockDispatcher rt ctx
        (deliver env rocketchatConfig to0 sessionWebhook0 isDirect senderId
           accountId0))))))))))))"

definition handleRocketChatMessage ::
  "Env \<Rightarrow> Runtime \<Rightarrow> OpenClawConfig \<Rightarrow> string \<Rightarrow> RocketChatInboundMessage \<Rightarrow> string
     \<Rightarrow> RocketChatConfig \<Rightarrow> unit io" where
  "handleRocketChatMessage env rt cfg accountId0 data0 sessionWebhook0 rocketchatConfig =
     io_bind (\<lambda>w. (Inr (), w\<lparr>currentLogger := True\<rparr>)) (\<lambda>_.
     io_bind (logWith True Debug
                [''[RocketChat] Full Inbound Data:'',
                 stringifyInbound env (maskSensitiveData data0)]) (\<lambda>_.
     if token data0 \<noteq> authToken rocketchatConfig
     then logWith True Warn [''[RocketChat] Invalid auth token received: '' @ token data0]
     else if bot data0
     then logWith True Debug [''[RocketChat] Ignoring robot self-message'']
     else
       (let content = extractMessageContent data0 in
        if content_text content = [] then io_return ()
        else
          (let isDirect = isDirectMessage data0;
               senderId = user_id data0;
               senderName = (if user_name data0 \<noteq> [] then user_name data0 else ''Unknown'');
               channelId = channel_id data0;
               channelName = (if truthy (channel_name data0) then the (channel_name data0)
                              else ''Direct Message'');
               commandAuthorized = True;
               proceed = handleAuthorized env rt cfg accountId0 data0 sessionWebhook0
                           rocketchatConfig content isDirect senderId senderName channelId
                           channelName commandAuthorized
           in
           if isDirect
           then
             (let dmPolicy0 = (case dmPolicy rocketchatConfig of None \<Rightarrow> PolicyOpen
                                                               | Some p \<Rightarrow> p);
                  allowFrom0 = (case allowFrom rocketchatConfig of None \<Rightarrow> [] | Some l \<Rightarrow> l)
              in
              if dmPolicy0 = PolicyAllowlist
              then
                (let normalizedAllowFrom = normalizeAllowFrom (Some allowFrom0);
                     isAllowed = isSenderAllowed normalizedAllowFrom (Some senderId)
                 in
                 if \<not> isAllowed
                 then
                   io_bind (logWith True Debug
                              [''[RocketChat] DM blocked: senderId='' @ senderId
                               @ '' not in allowlist (dmPolicy=allowlist)'']) (\<lambda>_.
                   io_try
                     (io_bind (sendBySession env rocketchatConfig sessionWebhook0
                                 (accessDeniedText senderId)
                                 \<lparr> useMarkdown = None, title = None, atUserId = None,
                                   log = True, sessionWebhook = None, accountId = None \<rparr>)
                        (\<lambda>_. io_return ()))
                     (\<lambda>err. logWith True Debug
                               [''[RocketChat] Failed to send access denied message: ''
                                @ err]))
                 else
                   io_bind (logWith True Debug
                              [''[RocketChat] DM authorized: senderId='' @ senderId
                               @ '' in allowlist'']) (\<lambda>_. proceed))
              else proceed)
           else proceed))))"

subsection \<open>The inbound webhook\<close>

text \<open>What the handler reads of the request: the method, the \<^verbatim>\<open>content-type\<close> and
  \<^verbatim>\<open>host\<close> headers, the URL, and the body (the chunks of the \<^verbatim>\<open>data\<close> events, joined
  when \<^verbatim>\<open>end\<close> fires).\<close>

record IncomingRequest =
  req_method :: string
  req_contentType :: "string option"
  req_host :: "string option"
  req_url :: string
  req_body :: string

text \<open>Reading a property of a value that is not \<^verbatim>\<open>null\<close>: an object has its own
  properties, the last of two with one key winning; the keys read here are properties of
  no other value. \<open>None\<close> is \<^verbatim>\<open>undefined\<close>.\<close>

definition jsProp :: "json \<Rightarrow> string \<Rightarrow> json option" where
  "jsProp v k = (case v of JObj kvs \<Rightarrow> map_of (rev kvs) k | _ \<Rightarrow> None)"

definition getProp :: "Env \<Rightarrow> json \<Rightarrow> string \<Rightarrow> json option io" where
  "getProp env v k =
     (if v = JNull then io_throw (nullPropertyError env k) else io_return (jsProp v k))"

fun jsTruthy :: "json option \<Rightarrow> bool" where
  "jsTruthy None = False"
| "jsTruthy (Some JNull) = False"
| "jsTruthy (Some (JBool b)) = b"
| "jsTruthy (Some (JNum n)) = (n \<noteq> 0)"
| "jsTruthy (Some (JStr s)) = (s \<noteq> [])"
| "jsTruthy (Some (JArr xs)) = True"
| "jsTruthy (Some (JObj kvs)) = True"

text \<open>\<^verbatim>\<open>Object.fromEntries(new URLSearchParams(body).entries())\<close>, replaced by the parsed
  \<^verbatim>\<open>payload\<close> field when it has one.\<close>

definition formObject :: "Env \<Rightarrow> string \<Rightarrow> json" where
  "formObject env body = JObj (map (\<lambda>(k, v). (k, JStr v)) (URLSearchParams env body))"

definition parseForm :: "Env \<Rightarrow> string \<Rightarrow> string + json" where
  "parseForm env body =
     (let parsedBody = formObject env body in
      if jsTruthy (jsProp parsedBody ''payload'')
      then (case jsProp parsedBody ''payload'' of
              Some (JStr payload) \<Rightarrow> JSON_parse env payload
            | _ \<Rightarrow> Inr parsedBody)
      else Inr parsedBody)"

definition parseRequestBody :: "Env \<Rightarrow> string \<Rightarrow> string \<Rightarrow> string + json" where
  "parseRequestBody env contentType body =
     (if includesStr contentType ''application/json'' then JSON_parse env body
      else if includesStr contentType ''application/x-www-form-urlencoded''
      then parseForm env body
      else (case JSON_parse env body of
              Inr v \<Rightarrow> Inr v
            | Inl _ \<Rightarrow> parseForm env body))"

definition respond :: "nat \<Rightarrow> (string \<times> string) list \<Rightarrow> string \<Rightarrow> unit io" where
  "respond code hs body = emit (Respond \<lparr> statusCode = code, res_headers = hs, res_body = body \<rparr>)"

definition jsonHeader :: "(string \<times> string) list" where
  "jsonHeader = [(''Content-Type'', ''application/json'')]"

text \<open>The handler registered for the webhook path; \<open>ctxLog\<close> says whether the gateway
  context has a logger. The task given to \<^verbatim>\<open>setTimeout\<close> is recorded with the two
  arguments it will hand to \<^verbatim>\<open>handleRocketChatMessage\<close> that depend on the request: the
  parsed body and the session webhook URL.\<close>

definition webhookHandler :: "Env \<Rightarrow> bool \<Rightarrow> RocketChatConfig \<Rightarrow> IncomingRequest \<Rightarrow> unit io" where
  "webhookHandler env ctxLog config req =
     (if req_method req = ''GET''
      then io_bind (logWith ctxLog Debug [''[RocketChat] Received GET request for verification''])
             (\<lambda>_. respond 200 [(''Content-Type'', ''text/plain'')] ''Rocket.Chat webhook is active'')
      else if req_method req \<noteq> ''POST''
      then io_bind (logWith ctxLog Debug [''[RocketChat] Method not allowed''])
             (\<lambda>_. respond 405 ((''Allow'', ''GET, POST'') # jsonHeader)
                     ''{\"error\":\"Method Not Allowed\"}'')
      else
        (let body = req_body req in
         io_try
           (let contentType = (if truthy (req_contentType req) then the (req_contentType req)
                               else []) in
            io_bind (case parseRequestBody env contentType body of
                       Inl e \<Rightarrow> io_throw e
                     | Inr v \<Rightarrow> io_return v) (\<lambda>parsedBody.
            io_bind (getProp env parsedBody ''token'') (\<lambda>token0.
            if token0 \<noteq> Some (JStr (authToken config))
            then io_bind (logWith ctxLog Error
                            [''[RocketChat] Unauthorized webhook request - token mismatch''])
                   (\<lambda>_. respond 401 jsonHeader ''{\"error\":\"Unauthorized: Invalid token\"}'')
            else
              io_bind (getProp env parsedBody ''user_id'') (\<lambda>userId.
              io_bind (if jsTruthy userId then getProp env parsedBody ''text''
                       else io_return None) (\<lambda>text0.
              if \<not> jsTruthy userId \<or> \<not> jsTruthy text0
              then io_bind (logWith ctxLog Error
                              [''[RocketChat] Missing required fields in webhook request''])
                     (\<lambda>_. respond 400 jsonHeader
                             ''{\"error\":\"Bad Request: Missing required fields\"}'')
              else
                io_bind (respond 200 jsonHeader
                           ''{\"text\":\"\",\"response_type\":\"ephemeral\"}'') (\<lambda>_.
                emit (SetTimeout parsedBody
                        (''https://''
                         @ (if truthy (req_host req) then the (req_host req) else ''localhost'')
                         @ req_url req))))))))
           (\<lambda>parseError.
              io_bind (logWith ctxLog Error
                         [''[RocketChat] Error parsing request: '' @ parseError]) (\<lambda>_.
              io_bind (logWith ctxLog Error [''[RocketChat] Raw body: '' @ body]) (\<lambda>_.
              respond 400 jsonHeader ''{\"error\":\"Bad Request: Invalid JSON\"}'')))))"

subsection \<open>Notions used to state the properties\<close>

text \<open>The HTTP requests and the host calls among a list of events, in order.\<close>

fun posts :: "event list \<Rightarrow> http_request list" where
  "posts [] = []"
| "posts (Post r # es) = r # posts es"
| "posts (e # es) = posts es"

fun hostCalls :: "event list \<Rightarrow> host_call list" where
  "hostCalls [] = []"
| "hostCalls (HostCall c # es) = c # hostCalls es"
| "hostCalls (e # es) = hostCalls es"

text \<open>The events other than log lines.\<close>

fun isLog :: "event \<Rightarrow> bool" where
  "isLog (Log l a) = True"
| "isLog e = False"

definition nonLog :: "event list \<Rightarrow> event list" where
  "nonLog es = filter (\<lambda>e. \<not> isLog e) es"

text \<open>An action only adds events, and each event it adds satisfies \<open>P\<close>.\<close>

definition adds :: "(event \<Rightarrow> bool) \<Rightarrow> 'a io \<Rightarrow> bool" where
  "adds P m = (\<forall>w. \<exists>es. events (snd (m w)) = events w @ es \<and> list_all P es)"

text \<open>The sender id matches an allow-list entry: equal after lower-casing both.\<close>

definition senderMatches :: "string option \<Rightarrow> string \<Rightarrow> bool" where
  "senderMatches senderId entry =
     (case senderId of None \<Rightarrow> False | Some s \<Rightarrow> toLowerCase s = toLowerCase entry)"

text \<open>The allow-list decision as the specification words it: no non-blank entry, or a
  wildcard entry, or the sender id matches an entry with one leading provider prefix
  stripped. Entries are taken trimmed.\<close>

definition claimedAllowed :: "string list option \<Rightarrow> string option \<Rightarrow> bool" where
  "claimedAllowed list senderId =
     (let given = map trim (case list of None \<Rightarrow> [] | Some l \<Rightarrow> l) in
      (\<forall>e\<in>set given. e = [])
      \<or> (\<exists>e\<in>set given. e = ''*'')
      \<or> (\<exists>e\<in>set given. senderMatches senderId (stripProviderPrefix e)))"

text \<open>The same decision with the third alternative restricted to a non-empty sender
  id.\<close>

definition amendedAllowed :: "string list option \<Rightarrow> string option \<Rightarrow> bool" where
  "amendedAllowed list senderId =
     (let given = map trim (case list of None \<Rightarrow> [] | Some l \<Rightarrow> l) in
      (\<forall>e\<in>set given. e = [])
      \<or> (\<exists>e\<in>set given. e = ''*'')
      \<or> (truthy senderId
          \<and> (\<exists>e\<in>set given. senderMatches senderId (stripProviderPrefix e))))"

text \<open>The request \<open>sendBySession\<close> makes, and the request and the log lines
  \<open>sendProactive\<close> makes.\<close>

definition sessionRequest :: "RocketChatConfig \<Rightarrow> string \<Rightarrow> SendMessageOptions \<Rightarrow> http_request" where
  "sessionRequest config text0 options =
     \<lparr> url = webhookUrl config, http_method = ''POST'',
       data = (if truthy (atUserId options)
               then (if detectMarkdown text0 options
                     then text0 @ '' @'' @ the (atUserId options) @ '' @'' @ the (atUserId options)
                     else text0 @ '' @'' @ the (atUserId options))
               else text0),
       headers = [(''Content-Type'', ''application/json'')] \<rparr>"

definition proactiveRequest :: "RocketChatConfig \<Rightarrow> string \<Rightarrow> http_request" where
  "proactiveRequest config text0 =
     \<lparr> url = webhookUrl config, http_method = ''POST'', data = text0,
       headers = [(''Content-Type'', ''application/json'')] \<rparr>"

definition proactiveLogs :: "Env \<Rightarrow> string \<Rightarrow> string \<Rightarrow> SendMessageOptions \<Rightarrow> world \<Rightarrow> event list" where
  "proactiveLogs env target text0 options w =
     (if log options \<or> currentLogger w
      then [Log Debug [''[RocketChat] Sending proactive message to target '' @ target],
            Log Debug [''[RocketChat] Sending payload: '' @ stringifyOutbound env text0]]
      else [])"

text \<open>The line \<open>sendMessage\<close> logs when the call it made has thrown.\<close>

definition sendFailureLog :: "SendMessageOptions \<Rightarrow> string + 'a \<Rightarrow> event list" where
  "sendFailureLog options r =
     (case r of
        Inl err \<Rightarrow> (if log options
                    then [Log Error [''[RocketChat] Send message failed: '' @ err]] else [])
      | Inr d \<Rightarrow> [])"

subsection \<open>Example inputs\<close>

definition noOptions :: SendMessageOptions where
  "noOptions = \<lparr> useMarkdown = None, title = None, atUserId = None, log = False,
                 sessionWebhook = None, accountId = None \<rparr>"

definition exampleConfig :: RocketChatConfig where
  "exampleConfig = \<lparr> enabled = None, webhookUrl = ''https://chat.example/hooks/out'',
                     authToken = ''T'', dmPolicy = None, allowFrom = None,
                     showThinking = None \<rparr>"

definition exampleBody :: string where
  "exampleBody = ''{\"token\":\"T\",\"user_id\":\"u1\",\"text\":\"hi\"}''"

definition exampleParsed :: json where
  "exampleParsed = JObj [(''token'', JStr ''T''), (''user_id'', JStr ''u1''), (''text'', JStr ''hi'')]"

text \<open>An environment whose provider accepts every request, and one whose provider
  refuses every request.\<close>

definition exampleEnv :: Env where
  "exampleEnv = \<lparr> net = (\<lambda>_ _. Inr ''ok''),
                  stringifyOutbound = (\<lambda>t. t),
                  stringifyInbound = (\<lambda>d. user_id d),
                  JSON_parse = (\<lambda>s. if s = exampleBody then Inr exampleParsed
                                      else Inl ''Unexpected token''),
                  URLSearchParams = (\<lambda>_. []),
                  nullPropertyError = (\<lambda>k. ''Cannot read properties of null'') \<rparr>"

definition failingEnv :: Env where
  "failingEnv = exampleEnv\<lparr> net := (\<lambda>_ _. Inl ''ECONNREFUSED'') \<rparr>"

definition exampleRuntime :: Runtime where
  "exampleRuntime =
     \<lparr> resolveAgentRoute = (\<lambda>_ _ _ _ peer.
          \<lparr> agentId = ''main'', sessionKey = ''rocketchat:'' @ peer, mainSessionKey = ''main'' \<rparr>),
       resolveStorePath = (\<lambda>_ agent. ''/store/'' @ agent),
       resolveEnvelopeFormatOptions = (\<lambda>_. []),
       readSessionUpdatedAt = (\<lambda>_ _. None),
       formatInboundEnvelope = (\<lambda>p. env_from p @ '': '' @ env_body p),
       finalizeInboundContext = (\<lambda>c. c),
       recordInboundSession = (\<lambda>_. Recorded),
       replyBlocks = (\<lambda>_. [\<lparr> markdown = None, block_text = Some ''hello'' \<rparr>]) \<rparr>"

definition exampleMessage :: RocketChatInboundMessage where
  "exampleMessage = \<lparr> token = ''T'', bot = False, channel_id = ''c1'', channel_name = None,
                      message_id = ''m1'', timestamp = ''2026-01-01T00:00:00Z'',
                      user_id = ''u1'', user_name = ''Alice'', msg_text = ''hi'',
                      siteUrl = ''https://chat.example'' \<rparr>"

definition emptyWorld :: world where
  "emptyWorld = \<lparr> events = [], currentLogger = False \<rparr>"

definition exampleCfg :: OpenClawConfig where
  "exampleCfg = \<lparr> session_store = None \<rparr>"

definition allowlistConfig :: RocketChatConfig where
  "allowlistConfig = exampleConfig\<lparr> dmPolicy := Some PolicyAllowlist, allowFrom := Some [''u2''] \<rparr>"

definition exampleRequest :: IncomingRequest where
  "exampleRequest = \<lparr> req_method = ''POST'', req_contentType = Some ''application/json'',
                      req_host = Some ''gateway.example'', req_url = ''/hooks/T'',
                      req_body = exampleBody \<rparr>"

definition exampleContext :: InboundContext where
  "exampleContext =
     \<lparr> Body = ''Alice (u1): hi'', RawBody = ''hi'', CommandBody = ''hi'',
       From = ''u1'', To = ''u1'', SessionKey = ''rocketchat:u1'',
       AccountId = ''default'', ChatType = ''direct'',
       ConversationLabel = ''Alice (u1)'', GroupSubject = None,
       SenderName = ''Alice'', SenderId = ''u1'',
       Provider = ''rocketchat'', Surface = ''rocketchat'',
       MessageSid = ''m1'', Timestamp = ''2026-01-01T00:00:00Z'',
       MediaPath = None, MediaType = None, MediaUrl = None,
       CommandAuthorized = True, OriginatingChannel = ''rocketchat'',
       OriginatingTo = ''u1'' \<rparr>"

subsection \<open>Notions used to state the properties of the handler\<close>

text \<open>The first log line of the handler, the log line and the request of a denial.\<close>

definition fullInboundLog :: "Env \<Rightarrow> RocketChatInboundMessage \<Rightarrow> event" where
  "fullInboundLog env data0 =
     Log Debug [''[RocketChat] Full Inbound Data:'', stringifyInbound env (maskSensitiveData data0)]"

definition blockedLog :: "string \<Rightarrow> event" where
  "blockedLog senderId =
     Log Debug [''[RocketChat] DM blocked: senderId='' @ senderId
                @ '' not in allowlist (dmPolicy=allowlist)'']"

definition deniedRequest :: "RocketChatConfig \<Rightarrow> string \<Rightarrow> http_request" where
  "deniedRequest config senderId =
     \<lparr> url = webhookUrl config, http_method = ''POST'', data = accessDeniedText senderId,
       headers = [(''Content-Type'', ''application/json'')] \<rparr>"

text \<open>The context is addressed as the specification says: the chat type is direct
  exactly when the channel name is absent (or empty) or starts with \<open>@\<close>; \<open>From\<close> and
  \<open>To\<close> are the sender's id for a direct message and the channel id for a group message;
  the label is the sender's name with the sender's id in parentheses for a direct message,
  and the channel name, a dash and the sender's name for a group message.\<close>

definition addressedAsClaimed :: "RocketChatInboundMessage \<Rightarrow> InboundContext \<Rightarrow> bool" where
  "addressedAsClaimed data0 c =
     (let direct = (\<not> truthy (channel_name data0) \<or> startsWith (the (channel_name data0)) ''@'');
          senderName = (if user_name data0 \<noteq> [] then user_name data0 else ''Unknown'')
      in ChatType c = (if direct then ''direct'' else ''group'')
         \<and> From c = (if direct then user_id data0 else channel_id data0)
         \<and> To c = (if direct then user_id data0 else channel_id data0)
         \<and> ConversationLabel c =
             (if direct then senderName @ '' ('' @ user_id data0 @ '')''
              else the (channel_name data0) @ '' - '' @ senderName))"

text \<open>An event is no \<open>finalizeInboundContext\<close> call, or the context it passes is
  addressed so.\<close>

fun finalizeGood :: "RocketChatInboundMessage \<Rightarrow> event \<Rightarrow> bool" where
  "finalizeGood d (HostCall (FinalizeInboundContext c)) = addressedAsClaimed d c"
| "finalizeGood d e = True"

subsection \<open>Notions used to state the properties of the webhook\<close>

text \<open>The content type and the session webhook URL the handler computes from a
  request, and a response with status 400.\<close>

definition contentTypeOf :: "IncomingRequest \<Rightarrow> string" where
  "contentTypeOf req = (if truthy (req_contentType req) then the (req_contentType req) else [])"

definition sessionWebhookOf :: "IncomingRequest \<Rightarrow> string" where
  "sessionWebhookOf req =
     ''https://'' @ (if truthy (req_host req) then the (req_host req) else ''localhost'')
     @ req_url req"

definition badRequest :: "string \<Rightarrow> event" where
  "badRequest body = Respond \<lparr> statusCode = 400, res_headers = jsonHeader, res_body = body \<rparr>"

section \<open>Properties\<close>

lemmas example_defs = exampleEnv_def failingEnv_def exampleConfig_def exampleMessage_def
  emptyWorld_def exampleRuntime_def exampleCfg_def allowlistConfig_def exampleRequest_def
  exampleBody_def exampleParsed_def noOptions_def

lemmas string_defs = trim_def isWhiteSpace_def toLowerCase_def toLowerChar_def lowerTable_def
  startsWith_def truthy_def stripProviderPrefix_def providerPrefix_def matchCI_def

subsection \<open>Markdown detection\<close>

lemma includesStr_single: "includesStr s [c] = (c \<in> set s)"
  by (induction s) (auto simp: startsWith_def)

lemma regexTest_iff:
  "regexTest b s = ((b \<and> (\<exists>c cs. s = c # cs \<and> c \<in> set leaderClass)) \<or> (\<exists>c\<in>set s. c \<in> set inlineClass))"
  by (induction s arbitrary: b) auto

text \<open>
  Claim C7. \<open>detectMarkdown\<close> returns false whenever \<open>useMarkdown\<close> is explicitly false.
  Otherwise it returns true exactly when \<open>useMarkdown\<close> is true, or the text starts with
  one of \<open>#\<close>, \<open>*\<close>, \<open>>\<close>, \<open>-\<close>, or contains one of \<open>*\<close>, \<open>_\<close>, a backtick, \<open>#\<close>,
  \<open>[\<close>, \<open>]\<close>, or contains a line feed. With no explicit option the text \<open>hello\<close> gives
  false, and \<open># hello\<close>, a line feed, \<open>world\<close> gives true.
\<close>

theorem detectMarkdown_spec:
  "(useMarkdown options = Some False \<longrightarrow> \<not> detectMarkdown text0 options) \<and>
   (useMarkdown options \<noteq> Some False \<longrightarrow>
      detectMarkdown text0 options =
        (useMarkdown options = Some True
         \<or> (\<exists>c cs. text0 = c # cs \<and> c \<in> {CHR ''#'', CHR ''*'', CHR ''>'', CHR ''-''})
         \<or> (\<exists>c\<in>set text0. c \<in> {CHR ''*'', CHR ''_'', CHR 0x60, CHR ''#'', CHR ''['', CHR '']''})
         \<or> CHR 0x0A \<in> set text0)) \<and>
   \<not> detectMarkdown ''hello'' (options\<lparr>useMarkdown := None\<rparr>) \<and>
   detectMarkdown (''# hello'' @ [CHR 0x0A] @ ''world'') (options\<lparr>useMarkdown := None\<rparr>)"
proof -
  have cls: "set leaderClass = {CHR ''#'', CHR ''*'', CHR ''>'', CHR ''-''}"
    "set inlineClass = {CHR ''*'', CHR ''_'', CHR 0x60, CHR ''#'', CHR ''['', CHR '']''}"
    by (auto simp: leaderClass_def inlineClass_def)
  have gen: "detectMarkdown t opts =
      (useMarkdown opts \<noteq> Some False \<and>
        (useMarkdown opts = Some True
         \<or> (\<exists>c cs. t = c # cs \<and> c \<in> {CHR ''#'', CHR ''*'', CHR ''>'', CHR ''-''})
         \<or> (\<exists>c\<in>set t. c \<in> {CHR ''*'', CHR ''_'', CHR 0x60, CHR ''#'', CHR ''['', CHR '']''})
         \<or> CHR 0x0A \<in> set t))" for t opts
    unfolding detectMarkdown_def Let_def regexTest_iff includesStr_single cls by blast
  have a: "\<not> detectMarkdown ''hello'' (options\<lparr>useMarkdown := None\<rparr>)"
    by (simp add: gen)
  have b: "detectMarkdown (''# hello'' @ [CHR 0x0A] @ ''world'') (options\<lparr>useMarkdown := None\<rparr>)"
    by (simp add: gen)
  show ?thesis using a b by (simp add: gen [of text0 options])
qed

theorem detectMarkdown_spec_witness:
  "detectMarkdown ''see [docs]'' noOptions \<and>
   \<not> detectMarkdown ''# title'' (noOptions\<lparr>useMarkdown := Some False\<rparr>) \<and>
   \<not> detectMarkdown ''plain'' noOptions"
  using detectMarkdown_spec [of noOptions "''see [docs]''"]
        detectMarkdown_spec [of "noOptions\<lparr>useMarkdown := Some False\<rparr>" "''# title''"]
        detectMarkdown_spec [of noOptions "''plain''"]
  by (simp add: noOptions_def)

subsection \<open>The allow-list check\<close>

lemma toLowerCase_Nil_iff: "(toLowerCase s = []) = (s = [])"
  by (simp add: toLowerCase_def)

lemma stripProviderPrefix_Nil: "stripProviderPrefix [] = []"
  by (simp add: stripProviderPrefix_def providerPrefix_def matchCI_def)

lemma hasEntries_normalize:
  "hasEntries (normalizeAllowFrom list) =
     (\<exists>e\<in>set (map trim (case list of None \<Rightarrow> [] | Some l \<Rightarrow> l)). e \<noteq> [])"
  by (auto simp: normalizeAllowFrom_def Let_def filter_empty_conv)

lemma hasWildcard_normalize:
  "hasWildcard (normalizeAllowFrom list) =
     (\<exists>e\<in>set (map trim (case list of None \<Rightarrow> [] | Some l \<Rightarrow> l)). e = ''*'')"
  by (auto simp: normalizeAllowFrom_def Let_def)

lemma entriesLower_normalize:
  "set (entriesLower (normalizeAllowFrom list)) =
     (\<lambda>e. toLowerCase (stripProviderPrefix e)) `
       {e \<in> set (map trim (case list of None \<Rightarrow> [] | Some l \<Rightarrow> l)). e \<noteq> [] \<and> e \<noteq> ''*''}"
  by (auto simp: normalizeAllowFrom_def Let_def)

lemma match_nonblank:
  "s \<noteq> [] \<Longrightarrow> toLowerCase s = toLowerCase (stripProviderPrefix e) \<Longrightarrow> e \<noteq> []"
  by (auto simp: stripProviderPrefix_Nil toLowerCase_def)

lemma entriesLower_mem:
  assumes "s \<noteq> []" and "\<not> hasWildcard (normalizeAllowFrom list)"
  shows "(toLowerCase s \<in> set (entriesLower (normalizeAllowFrom list))) =
         (\<exists>e\<in>set (map trim (case list of None \<Rightarrow> [] | Some l \<Rightarrow> l)).
            toLowerCase s = toLowerCase (stripProviderPrefix e))"
proof
  assume "toLowerCase s \<in> set (entriesLower (normalizeAllowFrom list))"
  then show "\<exists>e\<in>set (map trim (case list of None \<Rightarrow> [] | Some l \<Rightarrow> l)).
               toLowerCase s = toLowerCase (stripProviderPrefix e)"
    unfolding entriesLower_normalize by blast
next
  assume "\<exists>e\<in>set (map trim (case list of None \<Rightarrow> [] | Some l \<Rightarrow> l)).
            toLowerCase s = toLowerCase (stripProviderPrefix e)"
  then obtain e where e: "e \<in> set (map trim (case list of None \<Rightarrow> [] | Some l \<Rightarrow> l))"
    and m: "toLowerCase s = toLowerCase (stripProviderPrefix e)" by blast
  from assms(1) m have "e \<noteq> []" by (rule match_nonblank)
  moreover from assms(2) e have "e \<noteq> ''*''"
    unfolding hasWildcard_normalize by blast
  ultimately show "toLowerCase s \<in> set (entriesLower (normalizeAllowFrom list))"
    unfolding entriesLower_normalize using e m by blast
qed

text \<open>
  Claim C1, as amended. For every allow list and every sender id, \<open>normalizeAllowFrom\<close>
  followed by \<open>isSenderAllowed\<close> allows the sender exactly when the list has no non-blank
  entry, or some entry is \<open>*\<close> after trimming, or the sender id is defined and not empty
  and equals, case-insensitively, some trimmed entry with one leading provider prefix
  (\<open>rocketchat:\<close>, \<open>rc:\<close> or \<open>rocket:\<close>, in any case) stripped.
\<close>

theorem allowlist_check_amended:
  "isSenderAllowed (normalizeAllowFrom list) senderId = amendedAllowed list senderId"
proof (cases "truthy senderId")
  case False
  then show ?thesis
    unfolding isSenderAllowed_def amendedAllowed_def Let_def hasEntries_normalize
      hasWildcard_normalize
    by auto
next
  case True
  then obtain s where s: "senderId = Some s" "s \<noteq> []"
    by (auto simp: truthy_def split: option.splits)
  show ?thesis
  proof (cases "hasWildcard (normalizeAllowFrom list)")
    case True
    then show ?thesis
      unfolding isSenderAllowed_def amendedAllowed_def Let_def hasWildcard_normalize
      by auto
  next
    case False
    note mem = entriesLower_mem [OF s(2) False]
    from False have nw: "\<not> (\<exists>e\<in>set (map trim (case list of None \<Rightarrow> [] | Some l \<Rightarrow> l)). e = ''*'')"
      unfolding hasWildcard_normalize .
    show ?thesis
      unfolding isSenderAllowed_def amendedAllowed_def Let_def hasEntries_normalize
      using False nw s mem by (auto simp: truthy_def senderMatches_def)
  qed
qed

theorem allowlist_check_amended_witness:
  "isSenderAllowed (normalizeAllowFrom (Some [''  '', ''RC:Alice'', '' bob ''])) (Some ''alice'') \<and>
   amendedAllowed (Some [''  '', ''RC:Alice'', '' bob '']) (Some ''alice'') \<and>
   \<not> isSenderAllowed (normalizeAllowFrom (Some [''rc:''])) (Some '''')"
  using allowlist_check_amended [of "Some [''  '', ''RC:Alice'', '' bob '']" "Some ''alice''"]
        allowlist_check_amended [of "Some [''rc:'']" "Some ''''"]
  by (simp add: amendedAllowed_def senderMatches_def truthy_def trim_def isWhiteSpace_def
        stripProviderPrefix_def providerPrefix_def matchCI_def toLowerCase_def toLowerChar_def
        lowerTable_def)

text \<open>
  Claim C1 as stated fails for the empty sender id: with the single entry \<open>rc:\<close>, which
  is the empty string once its prefix is stripped, the empty sender id matches the entry,
  and the code refuses it, because \<open>isSenderAllowed\<close> compares only a truthy sender id.
\<close>

theorem allowlist_empty_sender_counterexample:
  "isSenderAllowed (normalizeAllowFrom (Some [''rc:''])) (Some '''')
     \<noteq> claimedAllowed (Some [''rc:'']) (Some '''')"
  by (simp add: isSenderAllowed_def normalizeAllowFrom_def claimedAllowed_def senderMatches_def
        truthy_def trim_def isWhiteSpace_def stripProviderPrefix_def providerPrefix_def
        matchCI_def toLowerCase_def toLowerChar_def lowerTable_def)

subsection \<open>Sending\<close>

lemmas io_defs = io_return_def io_throw_def io_bind_def io_try_def emit_def logWith_def
  axios_def callHost_def respond_def

lemma sendBySession_run:
  "sendBySession env config sw text0 options w =
     (net env (events w) (sessionRequest config text0 options),
      w\<lparr>events := events w @ [Post (sessionRequest config text0 options)]\<rparr>)"
  by (simp add: sendBySession_def sessionRequest_def axios_def Let_def)

lemma sendProactive_run:
  "sendProactive env config target text0 options w =
     (net env (events w @ proactiveLogs env target text0 options w) (proactiveRequest config text0),
      w\<lparr>events := events w @ proactiveLogs env target text0 options w
                     @ [Post (proactiveRequest config text0)]\<rparr>)"
  by (simp add: sendProactive_def proactiveRequest_def proactiveLogs_def io_defs Let_def)

text \<open>
  Claim C3. \<open>sendMessage\<close> never raises: on every input it returns a delivery result.
  With a session webhook (a non-empty \<open>sessionWebhook\<close> option) it makes the request of
  \<open>sendBySession\<close>, and otherwise that of \<open>sendProactive\<close>, and does nothing else but log
  a failure; the result has \<open>ok\<close> true when that call returns, and \<open>ok\<close> false with the
  message of the error when it throws.
\<close>

theorem sendMessage_result:
  "(\<exists>r. fst (sendMessage env config conversationId text0 options w) = Inr r) \<and>
   (truthy (sessionWebhook options) \<longrightarrow>
      fst (sendMessage env config conversationId text0 options w) =
        (case fst (sendBySession env config (the (sessionWebhook options)) text0 options w) of
           Inr d \<Rightarrow> Inr \<lparr> ok = True, error = None, result_data = None \<rparr>
         | Inl err \<Rightarrow> Inr \<lparr> ok = False, error = Some err, result_data = None \<rparr>)
      \<and> emitted w (snd (sendMessage env config conversationId text0 options w)) =
          emitted w (snd (sendBySession env config (the (sessionWebhook options)) text0
                            options w))
          @ sendFailureLog options
              (fst (sendBySession env config (the (sessionWebhook options)) text0 options w))) \<and>
   (\<not> truthy (sessionWebhook options) \<longrightarrow>
      fst (sendMessage env config conversationId text0 options w) =
        (case fst (sendProactive env config conversationId text0 options w) of
           Inr d \<Rightarrow> Inr \<lparr> ok = True, error = None, result_data = Some d \<rparr>
         | Inl err \<Rightarrow> Inr \<lparr> ok = False, error = Some err, result_data = None \<rparr>)
      \<and> emitted w (snd (sendMessage env config conversationId text0 options w)) =
          emitted w (snd (sendProactive env config conversationId text0 options w))
          @ sendFailureLog options
              (fst (sendProactive env config conversationId text0 options w)))"
  by (auto simp: sendMessage_def sendBySession_run sendProactive_run io_defs emitted_def
        proactiveLogs_def sendFailureLog_def split: sum.splits)

theorem sendMessage_result_witness:
  "fst (sendMessage exampleEnv exampleConfig ''u1'' ''hi''
          (noOptions\<lparr>sessionWebhook := Some ''https://gateway.example/hooks/T''\<rparr>) emptyWorld)
     = Inr \<lparr> ok = True, error = None, result_data = None \<rparr> \<and>
   fst (sendMessage exampleEnv exampleConfig ''u1'' ''hi'' noOptions emptyWorld)
     = Inr \<lparr> ok = True, error = None, result_data = Some ''ok'' \<rparr> \<and>
   fst (sendMessage failingEnv exampleConfig ''u1'' ''hi'' noOptions emptyWorld)
     = Inr \<lparr> ok = False, error = Some ''ECONNREFUSED'', result_data = None \<rparr>"
  using sendMessage_result [of exampleEnv exampleConfig "''u1''" "''hi''"
          "noOptions\<lparr>sessionWebhook := Some ''https://gateway.example/hooks/T''\<rparr>" emptyWorld]
        sendMessage_result [of exampleEnv exampleConfig "''u1''" "''hi''" noOptions emptyWorld]
        sendMessage_result [of failingEnv exampleConfig "''u1''" "''hi''" noOptions emptyWorld]
  by (simp add: sendBySession_run sendProactive_run example_defs truthy_def)

text \<open>
  Claim C6 at a markdown text: \<open>sendBySession\<close> posts to the configured \<open>webhookUrl\<close>,
  and with \<open>atUserId = u1\<close> the body of the request carries the mention twice.
\<close>

theorem sendBySession_mention_twice:
  "posts (events (snd (sendBySession exampleEnv exampleConfig ''https://gateway.example/hooks/T''
       ''# hi'' (noOptions\<lparr>atUserId := Some ''u1''\<rparr>) emptyWorld)))
   = [\<lparr> url = ''https://chat.example/hooks/out'', http_method = ''POST'',
        data = ''# hi @u1 @u1'', headers = [(''Content-Type'', ''application/json'')] \<rparr>]"
  by (simp add: sendBySession_run sessionRequest_def emptyWorld_def exampleConfig_def
        noOptions_def truthy_def detectMarkdown_def leaderClass_def)

subsection \<open>The inbound message handler: early returns\<close>

lemma includesStr_Nil: "includesStr s []"
  by (cases s) (simp_all add: startsWith_def)

lemma includesStr_prefix: "includesStr (t @ b) t"
  by (cases t) (simp_all add: startsWith_def includesStr_Nil)

lemma includesStr_append: "includesStr (a @ t @ b) t"
  by (induction a) (simp_all add: includesStr_prefix)

lemma accessDeniedText_includes: "includesStr (accessDeniedText senderId) senderId"
proof -
  have "accessDeniedText senderId =
      ([CHR 0xE2, CHR 0x9B, CHR 0x94] @ '' Access restricted'' @ [CHR 0x0A, CHR 0x0A]
        @ ''Your user ID: '' @ [CHR 0x60]) @ senderId
      @ ([CHR 0x60] @ [CHR 0x0A, CHR 0x0A]
        @ ''Please contact administrator to add this ID to the allowlist.'')"
    by (simp add: accessDeniedText_def)
  then show ?thesis by (simp only: includesStr_append)
qed

text \<open>
  Claim C8. When the text of the inbound message trims to the empty string, the handler
  returns normally and all it does is log: the inbound data, and then the token warning or
  the bot notice when the message stops at one of those checks. No request is sent and the
  host runtime is not called, so no envelope is built and no session recorded.
\<close>

theorem blank_text_is_noop:
  assumes "trim (msg_text data0) = []"
  shows "fst (handleRocketChatMessage env rt cfg accountId0 data0 sessionWebhook0 config w) = Inr ()
    \<and> emitted w (snd (handleRocketChatMessage env rt cfg accountId0 data0 sessionWebhook0 config w))
        = fullInboundLog env data0 #
          (if token data0 \<noteq> authToken config
           then [Log Warn [''[RocketChat] Invalid auth token received: '' @ token data0]]
           else if bot data0 then [Log Debug [''[RocketChat] Ignoring robot self-message'']]
           else [])
    \<and> posts (emitted w (snd (handleRocketChatMessage env rt cfg accountId0 data0 sessionWebhook0
                               config w))) = []
    \<and> hostCalls (emitted w (snd (handleRocketChatMessage env rt cfg accountId0 data0
                                   sessionWebhook0 config w))) = []"
  using assms
  by (simp add: handleRocketChatMessage_def extractMessageContent_def io_defs emitted_def
        fullInboundLog_def Let_def)

theorem blank_text_is_noop_witness:
  "fst (handleRocketChatMessage exampleEnv exampleRuntime exampleCfg ''default''
          (exampleMessage\<lparr>msg_text := ''   ''\<rparr>) ''https://gateway.example/hooks/T''
          exampleConfig emptyWorld) = Inr () \<and>
   emitted emptyWorld
     (snd (handleRocketChatMessage exampleEnv exampleRuntime exampleCfg ''default''
             (exampleMessage\<lparr>msg_text := ''   ''\<rparr>) ''https://gateway.example/hooks/T''
             exampleConfig emptyWorld))
     = [Log Debug [''[RocketChat] Full Inbound Data:'', ''u1'']]"
proof -
  have blank: "trim (msg_text (exampleMessage\<lparr>msg_text := ''   ''\<rparr>)) = []"
    by (simp add: trim_def isWhiteSpace_def)
  from blank_text_is_noop [OF blank, of exampleEnv exampleRuntime exampleCfg "''default''"
      "''https://gateway.example/hooks/T''" exampleConfig emptyWorld]
  show ?thesis
    by (simp add: fullInboundLog_def maskSensitiveData_def example_defs)
qed

text \<open>
  Claim C10. When the \<open>bot\<close> field of the inbound message is true, the handler returns
  normally having only logged the inbound data and the token warning or the bot notice:
  no request is sent and the host runtime is not called. The run does not depend on the DM
  policy and the allow list of the configuration: replacing them changes nothing.
\<close>

theorem bot_message_is_ignored:
  assumes "bot data0"
  shows "fst (handleRocketChatMessage env rt cfg accountId0 data0 sessionWebhook0 config w) = Inr ()
    \<and> emitted w (snd (handleRocketChatMessage env rt cfg accountId0 data0 sessionWebhook0 config w))
        = fullInboundLog env data0 #
          (if token data0 \<noteq> authToken config
           then [Log Warn [''[RocketChat] Invalid auth token received: '' @ token data0]]
           else [Log Debug [''[RocketChat] Ignoring robot self-message'']])
    \<and> posts (emitted w (snd (handleRocketChatMessage env rt cfg accountId0 data0 sessionWebhook0
                               config w))) = []
    \<and> hostCalls (emitted w (snd (handleRocketChatMessage env rt cfg accountId0 data0
                                   sessionWebhook0 config w))) = []
    \<and> handleRocketChatMessage env rt cfg accountId0 data0 sessionWebhook0
          (config\<lparr>dmPolicy := policy, allowFrom := allowed\<rparr>) w
        = handleRocketChatMessage env rt cfg accountId0 data0 sessionWebhook0 config w"
  using assms
  by (simp add: handleRocketChatMessage_def io_defs emitted_def fullInboundLog_def Let_def)

theorem bot_message_is_ignored_witness:
  "fst (handleRocketChatMessage exampleEnv exampleRuntime exampleCfg ''default''
          (exampleMessage\<lparr>bot := True\<rparr>) ''https://gateway.example/hooks/T''
          allowlistConfig emptyWorld) = Inr () \<and>
   emitted emptyWorld
     (snd (handleRocketChatMessage exampleEnv exampleRuntime exampleCfg ''default''
             (exampleMessage\<lparr>bot := True\<rparr>) ''https://gateway.example/hooks/T''
             allowlistConfig emptyWorld))
     = [Log Debug [''[RocketChat] Full Inbound Data:'', ''u1''],
        Log Debug [''[RocketChat] Ignoring robot self-message'']]"
proof -
  have b: "bot (exampleMessage\<lparr>bot := True\<rparr>)" by simp
  from bot_message_is_ignored [OF b, of exampleEnv exampleRuntime exampleCfg "''default''"
      "''https://gateway.example/hooks/T''" allowlistConfig emptyWorld]
  show ?thesis
    by (simp add: fullInboundLog_def maskSensitiveData_def example_defs)
qed

text \<open>
  Claim C4. For a direct message that passes the token, bot and text checks under the
  \<open>allowlist\<close> policy with a sender that is not allowed, the handler returns normally;
  it sends exactly one request, to the configured webhook URL, whose text is the denial
  notice and contains the sender's user id; it calls no function of the host runtime; and
  when the provider refuses the request the failure is logged and nothing more is sent.
\<close>

theorem denied_direct_message:
  assumes "token data0 = authToken config" and "\<not> bot data0" and "trim (msg_text data0) \<noteq> []"
    and "isDirectMessage data0" and "dmPolicy config = Some PolicyAllowlist"
    and "\<not> isSenderAllowed
            (normalizeAllowFrom (Some (case allowFrom config of None \<Rightarrow> [] | Some l \<Rightarrow> l)))
            (Some (user_id data0))"
  shows "fst (handleRocketChatMessage env rt cfg accountId0 data0 sessionWebhook0 config w) = Inr ()
    \<and> emitted w (snd (handleRocketChatMessage env rt cfg accountId0 data0 sessionWebhook0 config w))
        = [fullInboundLog env data0, blockedLog (user_id data0),
           Post (deniedRequest config (user_id data0))]
          @ (case net env (events w @ [fullInboundLog env data0, blockedLog (user_id data0)])
                    (deniedRequest config (user_id data0)) of
               Inl err \<Rightarrow> [Log Debug [''[RocketChat] Failed to send access denied message: ''
                                       @ err]]
             | Inr d \<Rightarrow> [])
    \<and> posts (emitted w (snd (handleRocketChatMessage env rt cfg accountId0 data0 sessionWebhook0
                               config w))) = [deniedRequest config (user_id data0)]
    \<and> includesStr (data (deniedRequest config (user_id data0))) (user_id data0)
    \<and> hostCalls (emitted w (snd (handleRocketChatMessage env rt cfg accountId0 data0
                                   sessionWebhook0 config w))) = []"
proof -
  let ?req = "deniedRequest config (user_id data0)"
  have req: "sessionRequest config (accessDeniedText (user_id data0))
       \<lparr> useMarkdown = None, title = None, atUserId = None, log = True,
         sessionWebhook = None, accountId = None \<rparr> = ?req"
    by (simp add: sessionRequest_def deniedRequest_def truthy_def)
  have inc: "includesStr (data ?req) (user_id data0)"
    by (simp add: deniedRequest_def accessDeniedText_includes)
  have run: "handleRocketChatMessage env rt cfg accountId0 data0 sessionWebhook0 config w =
      (case net env (events w @ [fullInboundLog env data0, blockedLog (user_id data0)]) ?req of
         Inl err \<Rightarrow> (Inr (), w\<lparr>currentLogger := True,
            events := events w @ [fullInboundLog env data0, blockedLog (user_id data0), Post ?req,
              Log Debug [''[RocketChat] Failed to send access denied message: '' @ err]]\<rparr>)
       | Inr d \<Rightarrow> (Inr (), w\<lparr>currentLogger := True,
            events := events w @ [fullInboundLog env data0, blockedLog (user_id data0),
              Post ?req]\<rparr>))"
    using assms
    by (simp add: handleRocketChatMessage_def extractMessageContent_def io_defs
          sendBySession_run req fullInboundLog_def blockedLog_def Let_def split: sum.splits)
  show ?thesis
    using inc by (simp add: run emitted_def fullInboundLog_def blockedLog_def split: sum.splits)
qed

theorem denied_direct_message_witness:
  "fst (handleRocketChatMessage failingEnv exampleRuntime exampleCfg ''default'' exampleMessage
          ''https://gateway.example/hooks/T'' allowlistConfig emptyWorld) = Inr () \<and>
   posts (emitted emptyWorld
     (snd (handleRocketChatMessage failingEnv exampleRuntime exampleCfg ''default'' exampleMessage
             ''https://gateway.example/hooks/T'' allowlistConfig emptyWorld)))
     = [\<lparr> url = ''https://chat.example/hooks/out'', http_method = ''POST'',
          data = accessDeniedText ''u1'',
          headers = [(''Content-Type'', ''application/json'')] \<rparr>] \<and>
   includesStr (accessDeniedText ''u1'') ''u1'' \<and>
   hostCalls (emitted emptyWorld
     (snd (handleRocketChatMessage failingEnv exampleRuntime exampleCfg ''default'' exampleMessage
             ''https://gateway.example/hooks/T'' allowlistConfig emptyWorld))) = [] \<and>
   last (emitted emptyWorld
     (snd (handleRocketChatMessage failingEnv exampleRuntime exampleCfg ''default'' exampleMessage
             ''https://gateway.example/hooks/T'' allowlistConfig emptyWorld)))
     = Log Debug [''[RocketChat] Failed to send access denied message: ECONNREFUSED'']"
proof -
  have h1: "token exampleMessage = authToken allowlistConfig"
    and h2: "\<not> bot exampleMessage"
    and h3: "trim (msg_text exampleMessage) \<noteq> []"
    and h4: "isDirectMessage exampleMessage"
    and h5: "dmPolicy allowlistConfig = Some PolicyAllowlist"
    by (simp_all add: example_defs isDirectMessage_def string_defs)
  have h6: "\<not> isSenderAllowed
      (normalizeAllowFrom (Some (case allowFrom allowlistConfig of None \<Rightarrow> [] | Some l \<Rightarrow> l)))
      (Some (user_id exampleMessage))"
    by (simp add: example_defs isSenderAllowed_def normalizeAllowFrom_def string_defs Let_def)
  have uid: "user_id exampleMessage = ''u1''"
    by (simp add: exampleMessage_def)
  have fails: "net failingEnv es r = Inl ''ECONNREFUSED''" for es r
    by (simp add: failingEnv_def)
  have req: "deniedRequest allowlistConfig ''u1''
      = \<lparr> url = ''https://chat.example/hooks/out'', http_method = ''POST'',
          data = accessDeniedText ''u1'',
          headers = [(''Content-Type'', ''application/json'')] \<rparr>"
    by (simp add: deniedRequest_def allowlistConfig_def exampleConfig_def)
  have ev: "events emptyWorld = []"
    by (simp add: emptyWorld_def)
  from denied_direct_message [OF h1 h2 h3 h4 h5 h6, of failingEnv exampleRuntime exampleCfg
      "''default''" "''https://gateway.example/hooks/T''" emptyWorld]
  show ?thesis
    unfolding uid fails req ev by (simp add: fullInboundLog_def blockedLog_def)
qed

subsection \<open>The events an action adds\<close>

lemma addsI: "(\<And>w. \<exists>es. events (snd (m w)) = events w @ es \<and> list_all P es) \<Longrightarrow> adds P m"
  by (simp add: adds_def)

lemma addsD: "adds P m \<Longrightarrow> \<exists>es. events (snd (m w)) = events w @ es \<and> list_all P es"
  by (simp add: adds_def)

lemma adds_return: "adds P (io_return x)"
  by (simp add: adds_def io_return_def)

lemma adds_throw: "adds P (io_throw e)"
  by (simp add: adds_def io_throw_def)

lemma adds_emit: "P ev \<Longrightarrow> adds P (emit ev)"
  by (simp add: adds_def emit_def)

lemma adds_logWith: "P (Log l a) \<Longrightarrow> adds P (logWith b l a)"
  by (simp add: logWith_def adds_emit adds_return)

lemma adds_bind:
  assumes "adds P m" and "\<And>x. adds P (f x)"
  shows "adds P (io_bind m f)"
proof (rule addsI)
  fix w
  obtain r w1 where m: "m w = (r, w1)" by (cases "m w")
  from addsD [OF assms(1), of w] m obtain es1
    where es1: "events w1 = events w @ es1" "list_all P es1" by auto
  show "\<exists>es. events (snd (io_bind m f w)) = events w @ es \<and> list_all P es"
  proof (cases r)
    case (Inl e)
    with m es1 show ?thesis by (simp add: io_bind_def)
  next
    case (Inr x)
    from addsD [OF assms(2), of x w1] obtain es2
      where es2: "events (snd (f x w1)) = events w1 @ es2" "list_all P es2" by auto
    with m es1 Inr have "events (snd (io_bind m f w)) = events w @ (es1 @ es2)"
      "list_all P (es1 @ es2)"
      by (simp_all add: io_bind_def)
    then show ?thesis by blast
  qed
qed

lemma adds_try:
  assumes "adds P m" and "\<And>e. adds P (h e)"
  shows "adds P (io_try m h)"
proof (rule addsI)
  fix w
  obtain r w1 where m: "m w = (r, w1)" by (cases "m w")
  from addsD [OF assms(1), of w] m obtain es1
    where es1: "events w1 = events w @ es1" "list_all P es1" by auto
  show "\<exists>es. events (snd (io_try m h w)) = events w @ es \<and> list_all P es"
  proof (cases r)
    case (Inr x)
    with m es1 show ?thesis by (simp add: io_try_def)
  next
    case (Inl e)
    from addsD [OF assms(2), of e w1] obtain es2
      where es2: "events (snd (h e w1)) = events w1 @ es2" "list_all P es2" by auto
    with m es1 Inl have "events (snd (io_try m h w)) = events w @ (es1 @ es2)"
      "list_all P (es1 @ es2)"
      by (simp_all add: io_try_def)
    then show ?thesis by blast
  qed
qed

lemma adds_callHost: "P (HostCall c) \<Longrightarrow> adds P (callHost c v)"
  by (simp add: callHost_def adds_bind adds_emit adds_return)

lemma adds_sendBySession:
  "(\<And>r. P (Post r)) \<Longrightarrow> adds P (sendBySession env config sw text0 options)"
  by (rule addsI) (simp add: sendBySession_run)

lemma adds_sendProactive:
  "(\<And>r. P (Post r)) \<Longrightarrow> (\<And>l a. P (Log l a)) \<Longrightarrow>
   adds P (sendProactive env config target text0 options)"
  by (rule addsI) (simp add: sendProactive_run proactiveLogs_def)

lemma adds_sendMessage:
  assumes "\<And>r. P (Post r)" and "\<And>l a. P (Log l a)"
  shows "adds P (sendMessage env config conv text0 options)"
  unfolding sendMessage_def
  by (intro adds_try adds_bind adds_return adds_logWith) (simp_all add: adds_sendBySession adds_sendProactive adds_bind adds_return assms)

lemma adds_deliver:
  assumes "\<And>r. P (Post r)" and "\<And>l a. P (Log l a)"
  shows "adds P (deliver env config to0 sw isDirect senderId acc payload)"
  unfolding deliver_def Let_def
  by (intro adds_try adds_bind adds_throw adds_logWith)
     (simp_all add: adds_sendMessage adds_bind adds_return assms)

lemma adds_deliverBlocks:
  "(\<And>p. adds P (d p)) \<Longrightarrow> adds P (deliverBlocks d ps)"
  by (induction ps) (simp_all add: adds_return adds_bind)

lemma adds_dispatch:
  "P (HostCall (DispatchReply ctx)) \<Longrightarrow> (\<And>p. adds P (d p)) \<Longrightarrow>
   adds P (dispatchReplyWithBufferedBlockDispatcher rt ctx d)"
  by (simp add: dispatchReplyWithBufferedBlockDispatcher_def adds_bind adds_emit
        adds_deliverBlocks)

lemma adds_if: "adds P a \<Longrightarrow> adds P b \<Longrightarrow> adds P (if c then a else b)"
  by simp

lemma adds_RecordOutcome:
  "adds P a \<Longrightarrow> (\<And>e. adds P (f e)) \<Longrightarrow> (\<And>e. adds P (g e)) \<Longrightarrow>
   adds P (case x of Recorded \<Rightarrow> a | RecordFailed e \<Rightarrow> f e | RecordRejected e \<Rightarrow> g e)"
  by (cases x) simp_all

lemma adds_setLogger: "adds P (\<lambda>w. (Inr (), w\<lparr>currentLogger := True\<rparr>))"
  by (simp add: adds_def)

lemmas adds_intros = adds_bind adds_try adds_return adds_throw adds_if adds_RecordOutcome
  adds_callHost adds_emit adds_logWith adds_dispatch adds_deliver adds_sendMessage
  adds_sendBySession adds_setLogger

lemma adds_handleAuthorized:
  "adds (finalizeGood data0)
     (handleAuthorized env rt cfg accountId0 data0 sessionWebhook0 config content
        (isDirectMessage data0) (user_id data0)
        (if user_name data0 \<noteq> [] then user_name data0 else ''Unknown'')
        (channel_id data0)
        (if truthy (channel_name data0) then the (channel_name data0) else ''Direct Message'')
        commandAuthorized)"
  unfolding handleAuthorized_def Let_def
  by (intro adds_intros) (simp_all add: addressedAsClaimed_def isDirectMessage_def)

lemma adds_handleRocketChatMessage:
  "adds (finalizeGood data0)
     (handleRocketChatMessage env rt cfg accountId0 data0 sessionWebhook0 config)"
  unfolding handleRocketChatMessage_def Let_def
  by (intro adds_intros adds_handleAuthorized) simp_all

text \<open>
  Claim C9. Every context the handler passes to \<open>finalizeInboundContext\<close> is addressed
  as the specification says: its chat type is direct exactly when the channel name is
  absent or starts with \<open>@\<close>, and group otherwise; \<open>From\<close> and \<open>To\<close> are both the sender's
  user id for a direct message and the channel id for a group message; and the
  conversation label is the sender's name followed by the sender's id in parentheses for a
  direct message, and the channel name, a dash and the sender's name for a group message.
\<close>

theorem envelope_addressing:
  assumes "HostCall (FinalizeInboundContext c)
             \<in> set (emitted w (snd (handleRocketChatMessage env rt cfg accountId0 data0
                                      sessionWebhook0 config w)))"
  shows "addressedAsClaimed data0 c"
proof -
  from addsD [OF adds_handleRocketChatMessage, of env rt cfg accountId0 data0 sessionWebhook0 config w]
  obtain es where es: "events (snd (handleRocketChatMessage env rt cfg accountId0 data0
                                      sessionWebhook0 config w)) = events w @ es"
    and good: "list_all (finalizeGood data0) es" by blast
  from es have "emitted w (snd (handleRocketChatMessage env rt cfg accountId0 data0
                                  sessionWebhook0 config w)) = es"
    by (simp add: emitted_def)
  with assms have "HostCall (FinalizeInboundContext c) \<in> set es" by simp
  with good have "finalizeGood data0 (HostCall (FinalizeInboundContext c))"
    unfolding list_all_iff by blast
  then show ?thesis by simp
qed

theorem envelope_addressing_witness:
  "HostCall (FinalizeInboundContext exampleContext)
     \<in> set (emitted emptyWorld
         (snd (handleRocketChatMessage exampleEnv exampleRuntime exampleCfg ''default''
                 exampleMessage ''https://gateway.example/hooks/T'' exampleConfig emptyWorld))) \<and>
   addressedAsClaimed exampleMessage exampleContext \<and>
   From exampleContext = ''u1'' \<and> To exampleContext = ''u1'' \<and>
   ChatType exampleContext = ''direct'' \<and> ConversationLabel exampleContext = ''Alice (u1)''"
proof -
  have mem: "HostCall (FinalizeInboundContext exampleContext)
     \<in> set (emitted emptyWorld
         (snd (handleRocketChatMessage exampleEnv exampleRuntime exampleCfg ''default''
                 exampleMessage ''https://gateway.example/hooks/T'' exampleConfig emptyWorld)))"
    by (simp add: handleRocketChatMessage_def handleAuthorized_def extractMessageContent_def
          isDirectMessage_def dispatchReplyWithBufferedBlockDispatcher_def deliver_def
          sendMessage_def sendBySession_run replyOptions_def io_defs emitted_def Let_def
          exampleContext_def example_defs string_defs)
  from envelope_addressing [OF mem] mem show ?thesis
    by (simp add: exampleContext_def)
qed

subsection \<open>The deliver callback\<close>

lemma sendMessage_never_raises:
  "\<exists>r. fst (sendMessage env config conversationId text0 options w) = Inr r"
  by (auto simp: sendMessage_def io_defs split: sum.splits prod.splits)

lemma deliver_never_raises:
  "fst (deliver env config to0 sessionWebhook0 isDirect senderId accountId0 payload w) = Inr ()"
proof -
  obtain r w' where r: "sendMessage env config to0
      (the (if truthy (markdown payload) then markdown payload else block_text payload))
      (replyOptions sessionWebhook0 isDirect senderId accountId0) w = (Inr r, w')"
    using sendMessage_never_raises
    by (metis fst_conv surj_pair)
  then show ?thesis
    by (simp add: deliver_def io_defs Let_def)
qed

text \<open>What the callback sends, when the session webhook URL is not empty: the markdown
  text of the block if it has one, else its plain text if it has one, else nothing.\<close>

lemma deliver_sends_block:
  assumes "sessionWebhook0 \<noteq> []"
  shows "posts (emitted w (snd (deliver env config to0 sessionWebhook0 isDirect senderId accountId0
                                  payload w)))
    = (if truthy (markdown payload)
       then [sessionRequest config (the (markdown payload))
               (replyOptions sessionWebhook0 isDirect senderId accountId0)]
       else if truthy (block_text payload)
       then [sessionRequest config (the (block_text payload))
               (replyOptions sessionWebhook0 isDirect senderId accountId0)]
       else [])"
  using assms
  by (auto simp: deliver_def sendMessage_def sendBySession_run replyOptions_def io_defs
        truthy_def emitted_def Let_def split: sum.splits)

text \<open>
  Claim C5 at a provider that refuses the request. The callback sends the text of the block
  once; \<open>sendMessage\<close> catches the provider's error, logs it and returns a result with
  \<open>ok\<close> false, which the callback does not read: the callback returns normally, its own
  handler (the log line \<open>Reply failed\<close> and the rethrow) never runs, and the host dispatcher
  sees no error.
\<close>

theorem deliver_swallows_failure:
  "deliver failingEnv exampleConfig ''u1'' ''https://gateway.example/hooks/T'' True ''u1''
       ''default'' \<lparr> markdown = None, block_text = Some ''hello'' \<rparr> emptyWorld
   = (Inr (),
      \<lparr> events = [Post \<lparr> url = ''https://chat.example/hooks/out'', http_method = ''POST'',
                         data = ''hello'',
                         headers = [(''Content-Type'', ''application/json'')] \<rparr>,
                  Log Error [''[RocketChat] Send message failed: ECONNREFUSED'']],
        currentLogger = False \<rparr>)"
  by (simp add: deliver_def sendMessage_def sendBySession_run sessionRequest_def replyOptions_def
        io_defs truthy_def failingEnv_def exampleEnv_def exampleConfig_def emptyWorld_def)

subsection \<open>The inbound webhook\<close>

text \<open>
  Claim C2. The handler never raises, and what it does besides logging is decided in this
  order. A \<open>GET\<close> is answered 200 with the text \<open>Rocket.Chat webhook is active\<close>; a method
  other than \<open>GET\<close> and \<open>POST\<close> is answered 405 with the header \<open>Allow: GET, POST\<close>. For a
  \<open>POST\<close>: a body that does not parse (or parses to \<open>null\<close>) is answered 400; else a body
  whose \<open>token\<close> is not the configured \<open>authToken\<close> is answered 401 with the body
  \<open>{"error":"Unauthorized: Invalid token"}\<close>; else a body whose \<open>user_id\<close> or \<open>text\<close> is
  missing or falsy is answered 400; else the handler answers 200 with the body
  \<open>{"text":"","response_type":"ephemeral"}\<close> and only then schedules, with
  \<open>setTimeout\<close>, the task that runs the message pipeline on the parsed body.
\<close>

theorem webhook_decision:
  "fst (webhookHandler env ctxLog config req w) = Inr () \<and>
   nonLog (emitted w (snd (webhookHandler env ctxLog config req w))) =
    (if req_method req = ''GET''
     then [Respond \<lparr> statusCode = 200, res_headers = [(''Content-Type'', ''text/plain'')],
                     res_body = ''Rocket.Chat webhook is active'' \<rparr>]
     else if req_method req \<noteq> ''POST''
     then [Respond \<lparr> statusCode = 405,
                     res_headers = [(''Allow'', ''GET, POST''),
                                    (''Content-Type'', ''application/json'')],
                     res_body = ''{\"error\":\"Method Not Allowed\"}'' \<rparr>]
     else
       (case parseRequestBody env (contentTypeOf req) (req_body req) of
          Inl e \<Rightarrow> [badRequest ''{\"error\":\"Bad Request: Invalid JSON\"}'']
        | Inr v \<Rightarrow>
            if v = JNull then [badRequest ''{\"error\":\"Bad Request: Invalid JSON\"}'']
            else if jsProp v ''token'' \<noteq> Some (JStr (authToken config))
            then [Respond \<lparr> statusCode = 401, res_headers = jsonHeader,
                            res_body = ''{\"error\":\"Unauthorized: Invalid token\"}'' \<rparr>]
            else if \<not> (jsTruthy (jsProp v ''user_id'') \<and> jsTruthy (jsProp v ''text''))
            then [badRequest ''{\"error\":\"Bad Request: Missing required fields\"}'']
            else [Respond \<lparr> statusCode = 200, res_headers = jsonHeader,
                            res_body = ''{\"text\":\"\",\"response_type\":\"ephemeral\"}'' \<rparr>,
                  SetTimeout v (sessionWebhookOf req)]))"
proof (cases "req_method req = ''GET''")
  case True
  then show ?thesis
    by (simp add: webhookHandler_def io_defs nonLog_def emitted_def)
next
  case notGet: False
  show ?thesis
  proof (cases "req_method req = ''POST''")
    case False
    with notGet show ?thesis
      by (simp add: webhookHandler_def io_defs nonLog_def emitted_def jsonHeader_def)
  next
    case post: True
    have ct: "(if truthy (req_contentType req) then the (req_contentType req) else [])
                = contentTypeOf req"
      by (simp add: contentTypeOf_def)
    show ?thesis
    proof (cases "parseRequestBody env (contentTypeOf req) (req_body req)")
      case (Inl e)
      with notGet post show ?thesis
        by (simp add: webhookHandler_def ct io_defs nonLog_def emitted_def badRequest_def
              Let_def)
    next
      case (Inr v)
      show ?thesis
      proof (cases "v = JNull")
        case True
        with notGet post Inr show ?thesis
          by (simp add: webhookHandler_def ct getProp_def io_defs nonLog_def emitted_def
                badRequest_def Let_def)
      next
        case notNull: False
        show ?thesis
        proof (cases "jsProp v ''token'' = Some (JStr (authToken config))")
          case False
          with notGet post Inr notNull show ?thesis
            by (simp add: webhookHandler_def ct getProp_def io_defs nonLog_def emitted_def
                  Let_def)
        next
          case tok: True
          show ?thesis
          proof (cases "jsTruthy (jsProp v ''user_id'') \<and> jsTruthy (jsProp v ''text'')")
            case False
            with notGet post Inr notNull tok show ?thesis
              by (simp add: webhookHandler_def ct getProp_def io_defs nonLog_def emitted_def
                    badRequest_def Let_def)
          next
            case True
            with notGet post Inr notNull tok show ?thesis
              by (simp add: webhookHandler_def ct getProp_def io_defs nonLog_def emitted_def
                    sessionWebhookOf_def Let_def)
          qed
        qed
      qed
    qed
  qed
qed

theorem webhook_decision_witness:
  "nonLog (emitted emptyWorld (snd (webhookHandler exampleEnv True exampleConfig exampleRequest
                                      emptyWorld)))
     = [Respond \<lparr> statusCode = 200, res_headers = [(''Content-Type'', ''application/json'')],
                  res_body = ''{\"text\":\"\",\"response_type\":\"ephemeral\"}'' \<rparr>,
        SetTimeout exampleParsed ''https://gateway.example/hooks/T''] \<and>
   nonLog (emitted emptyWorld
       (snd (webhookHandler exampleEnv True (exampleConfig\<lparr>authToken := ''S''\<rparr>) exampleRequest
               emptyWorld)))
     = [Respond \<lparr> statusCode = 401, res_headers = [(''Content-Type'', ''application/json'')],
                  res_body = ''{\"error\":\"Unauthorized: Invalid token\"}'' \<rparr>] \<and>
   nonLog (emitted emptyWorld
       (snd (webhookHandler exampleEnv True exampleConfig (exampleRequest\<lparr>req_body := ''{''\<rparr>)
               emptyWorld)))
     = [Respond \<lparr> statusCode = 400, res_headers = [(''Content-Type'', ''application/json'')],
                  res_body = ''{\"error\":\"Bad Request: Invalid JSON\"}'' \<rparr>]"
  using webhook_decision [of exampleEnv True exampleConfig exampleRequest emptyWorld]
        webhook_decision [of exampleEnv True "exampleConfig\<lparr>authToken := ''S''\<rparr>"
          exampleRequest emptyWorld]
        webhook_decision [of exampleEnv True exampleConfig "exampleRequest\<lparr>req_body := ''{''\<rparr>"
          emptyWorld]
  by (simp add: parseRequestBody_def contentTypeOf_def sessionWebhookOf_def badRequest_def
        jsonHeader_def jsProp_def example_defs string_defs)

end
